theory Spec2Isabelle
  imports Complex_Main
begin

section \<open>The sphere graph drawing of \<^verbatim>\<open>sphere_graph.js\<close>\<close>

text \<open>
  The drawing places seven cities on a globe of radius 5000 and joins every two of them
  by a curved line. The model below follows \<^verbatim>\<open>Drawing.SphereGraph\<close>: the functions
  \<^verbatim>\<open>createGraph\<close>, \<^verbatim>\<open>drawNode\<close> and \<^verbatim>\<open>drawEdge\<close>, the objects they
  share and the scene they fill.

  Numbers. A JavaScript number is an IEEE double; the model computes in \<^typ>\<open>real\<close>, with
  \<^verbatim>\<open>Math.PI\<close> as \<^term>\<open>pi\<close>, \<^verbatim>\<open>Math.sin\<close> and \<^verbatim>\<open>Math.cos\<close> as \<^term>\<open>sin\<close> and
  \<^term>\<open>cos\<close>. A statement about \<^verbatim>\<open>drawNode\<close> or \<^verbatim>\<open>drawEdge\<close> is therefore one
  of exact arithmetic. Where a property would rest on \<open>sin pi = 0\<close> or
  \<open>cos (pi / 2) = 0\<close>, which the doubles do not give, it is stated for
  \<^verbatim>\<open>drawNode\<close> with the \<^verbatim>\<open>Math\<close> object as a parameter (see below). The rounding of
  the arithmetic operations is not modelled.
\<close>

subsection \<open>Objects\<close>

text \<open>
  A coordinate object, \<^verbatim>\<open>{x: 44, y: 0}\<close>. It has no \<^verbatim>\<open>z\<close> until \<^verbatim>\<open>drawNode\<close>
  assigns one. Coordinate objects are shared (a node's \<^verbatim>\<open>position\<close> is the very object
  of the \<^verbatim>\<open>cities\<close> literal, and so is its mesh's), so they live in a heap and are
  referred to by address.
\<close>

type_synonym addr = nat

record coords =
  pos_x :: real
  pos_y :: real
  pos_z :: "real option"

text \<open>
  A \<^verbatim>\<open>Node\<close> as \<^verbatim>\<open>createGraph\<close> sets it up: \<^verbatim>\<open>id\<close>, \<^verbatim>\<open>data.name\<close> and the reference
  \<^verbatim>\<open>position\<close>. The fields \<^verbatim>\<open>data.draw_object\<close> and \<^verbatim>\<open>layout\<close> that \<^verbatim>\<open>drawNode\<close>
  adds are never read in this file: the mesh is kept in the scene, the layout bounds are
  left out.
\<close>

record node =
  node_id :: nat
  data_name :: string
  position :: addr

datatype vector3 = Vector3 (vx: real) (vy: real) (vz: real)

datatype curve = QuadraticBezierCurve3 (v0: vector3) (v1: vector3) (v2: vector3)

text \<open>
  What \<^verbatim>\<open>scene.add\<close> receives: the globe (from \<^verbatim>\<open>init\<close>), a node's mesh with its
  \<^verbatim>\<open>id\<close> and the reference to its position, and an edge's line with the vertices of its
  geometry. Materials, colours and \<^verbatim>\<open>lookAt\<close> are rendering and are left out.
\<close>

datatype scene_object =
    is_Globe: Globe
  | is_Mesh: Mesh (mesh_id: nat) (mesh_position: addr)
  | is_Line: Line (line_vertices: "vector3 list")

subsection \<open>The graph container\<close>

text \<open>
  \<^verbatim>\<open>Graph\<close>, \<^verbatim>\<open>Node\<close> and the two operations \<^verbatim>\<open>addNode\<close> and \<^verbatim>\<open>addEdge\<close> come from
  the graph library, which is not part of \<^verbatim>\<open>sphere_graph.js\<close>.
\<close>

record graph =
  limit :: "nat option"
  nodes :: "node list"
  edges :: "(node \<times> node) list"

definition reached_limit :: "graph \<Rightarrow> bool" where
  \<comment> \<open>Modelled from the spec: the node limit of the absent graph library (section 3: when a
      limit is set, adding beyond it is rejected; section 8: of \<open>N > L\<close> distinct nodes
      exactly \<open>L\<close> are added).\<close>
  "reached_limit g = (case limit g of None \<Rightarrow> False | Some l \<Rightarrow> l \<le> length (nodes g))"

definition addNode :: "graph \<Rightarrow> node \<Rightarrow> bool \<times> graph" where
  \<comment> \<open>Modelled from the spec: \<open>Graph.addNode\<close> of the absent graph library (section 4.1): it
      succeeds and registers the node if its id is not already present and the limit is
      not exceeded; otherwise it fails and changes nothing.\<close>
  "addNode g n =
     (if node_id n \<notin> set (map node_id (nodes g)) \<and> \<not> reached_limit g
      then (True, g\<lparr>nodes := nodes g @ [n]\<rparr>)
      else (False, g))"

definition connects :: "node \<Rightarrow> node \<Rightarrow> node \<times> node \<Rightarrow> bool" where
  \<comment> \<open>Modelled from the spec: an edge is an unordered pair of nodes, told apart by id.\<close>
  "connects a b e =
     (node_id (fst e) = node_id a \<and> node_id (snd e) = node_id b \<or>
      node_id (fst e) = node_id b \<and> node_id (snd e) = node_id a)"

definition addEdge :: "graph \<Rightarrow> node \<Rightarrow> node \<Rightarrow> bool \<times> graph" where
  \<comment> \<open>Modelled from the spec: \<open>Graph.addEdge\<close> of the absent graph library (section 4.1): it
      succeeds and registers a new edge if the ids differ and no edge already connects the
      unordered pair; otherwise it fails and changes nothing.\<close>
  "addEdge g a b =
     (if node_id a \<noteq> node_id b \<and> \<not> list_ex (connects a b) (edges g)
      then (True, g\<lparr>edges := edges g @ [(a, b)]\<rparr>)
      else (False, g))"

subsection \<open>The drawing's state\<close>

text \<open>
  The variables of \<^verbatim>\<open>Drawing.SphereGraph\<close> that \<^verbatim>\<open>createGraph\<close>, \<^verbatim>\<open>drawNode\<close> and
  \<^verbatim>\<open>drawEdge\<close> touch: the heap of coordinate objects, \<^verbatim>\<open>graph\<close> and \<^verbatim>\<open>scene\<close>.
\<close>

record state =
  heap :: "addr \<Rightarrow> coords"
  graph :: graph
  scene :: "scene_object list"

record options =
  opt_limit :: "nat option"

definition init :: "options \<Rightarrow> state" where
  \<comment> \<open>\<^verbatim>\<open>var graph = new Graph({limit: options.limit})\<close> and, of \<^verbatim>\<open>init()\<close>, the scene with
      the globe. No coordinate object exists yet: every address holds a blank one.\<close>
  "init opts =
     \<lparr>heap = (\<lambda>a. \<lparr>pos_x = 0, pos_y = 0, pos_z = None\<rparr>),
      graph = \<lparr>limit = opt_limit opts, nodes = [], edges = []\<rparr>,
      scene = [Globe]\<rparr>"

subsection \<open>\<^verbatim>\<open>drawNode\<close>\<close>

definition drawNode :: "node \<Rightarrow> state \<Rightarrow> state" where
  \<comment> \<open>Lines 320 to 340. \<open>phi\<close> and \<open>theta\<close> are read from the position object before its
      fields are assigned; the three assignments then overwrite \<open>x\<close> and \<open>y\<close> and add \<open>z\<close>
      in the same object. The mesh shares that object.\<close>
  "drawNode n s =
     (let area = 5000;
          p = heap s (position n);
          phi = (90 - pos_x p) * pi / 180;
          theta = (180 - pos_y p) * pi / 180;
          p1 = p\<lparr>pos_x := area * sin phi * cos theta\<rparr>;
          p2 = p1\<lparr>pos_y := area * cos phi\<rparr>;
          p3 = p2\<lparr>pos_z := Some (area * sin phi * sin theta)\<rparr>
      in s\<lparr>heap := (heap s)(position n := p3),
           scene := scene s @ [Mesh (node_id n) (position n)]\<rparr>)"

subsection \<open>\<^verbatim>\<open>drawNode\<close> with the \<^verbatim>\<open>Math\<close> object made explicit\<close>

text \<open>
  What \<^verbatim>\<open>drawNode\<close> takes from \<^verbatim>\<open>Math\<close>: the constant \<^verbatim>\<open>Math.PI\<close> and the
  functions \<^verbatim>\<open>Math.sin\<close> and \<^verbatim>\<open>Math.cos\<close>.
\<close>

record math =
  Math_PI :: real
  Math_sin :: "real \<Rightarrow> real"
  Math_cos :: "real \<Rightarrow> real"

definition drawNode_with :: "math \<Rightarrow> node \<Rightarrow> state \<Rightarrow> state" where
  \<comment> \<open>Lines 320 to 340 again, reading \<^verbatim>\<open>Math.PI\<close>, \<^verbatim>\<open>Math.sin\<close> and \<^verbatim>\<open>Math.cos\<close>
      from the parameter.\<close>
  "drawNode_with m n s =
     (let area = 5000;
          p = heap s (position n);
          phi = (90 - pos_x p) * Math_PI m / 180;
          theta = (180 - pos_y p) * Math_PI m / 180;
          p1 = p\<lparr>pos_x := area * Math_sin m phi * Math_cos m theta\<rparr>;
          p2 = p1\<lparr>pos_y := area * Math_cos m phi\<rparr>;
          p3 = p2\<lparr>pos_z := Some (area * Math_sin m phi * Math_sin m theta)\<rparr>
      in s\<lparr>heap := (heap s)(position n := p3),
           scene := scene s @ [Mesh (node_id n) (position n)]\<rparr>)"

definition real_Math :: math where
  \<comment> \<open>The exact constant and functions: with them \<open>drawNode_with\<close> is \<open>drawNode\<close>.\<close>
  "real_Math = \<lparr>Math_PI = pi, Math_sin = sin, Math_cos = cos\<rparr>"

definition double_Math :: math where
  \<comment> \<open>\<^verbatim>\<open>Math.PI\<close> as it is in JavaScript: the double nearest to \<open>pi\<close>, which is
      \<open>884279719003555 / 2 ^ 48\<close> and lies below \<open>pi\<close> by about \<open>1.22e-16\<close>. Sine and
      cosine are taken exact: the library rounds their results to doubles, which changes
      neither their signs nor whether they are zero.\<close>
  "double_Math = \<lparr>Math_PI = 884279719003555 / 2 ^ 48, Math_sin = sin, Math_cos = cos\<rparr>"

definition accurate :: "math \<Rightarrow> bool" where
  \<comment> \<open>A \<^verbatim>\<open>Math\<close> object whose constant and functions are within \<open>1e-9\<close> of the exact
      ones.\<close>
  "accurate m \<longleftrightarrow>
     \<bar>Math_PI m - pi\<bar> \<le> 1 / 1000000000 \<and>
     (\<forall>t. \<bar>Math_sin m t - sin t\<bar> \<le> 1 / 1000000000) \<and>
     (\<forall>t. \<bar>Math_cos m t - cos t\<bar> \<le> 1 / 1000000000)"

subsection \<open>\<^verbatim>\<open>drawEdge\<close>\<close>

definition getPoint :: "curve \<Rightarrow> real \<Rightarrow> vector3" where
  \<comment> \<open>Modelled from the spec: the point of a quadratic Bezier curve at parameter \<open>t\<close>
      (section 4.3, step 4); the curve class belongs to the absent rendering library.\<close>
  "getPoint c t =
     Vector3
       ((1 - t)\<^sup>2 * vx (v0 c) + 2 * (1 - t) * t * vx (v1 c) + t\<^sup>2 * vx (v2 c))
       ((1 - t)\<^sup>2 * vy (v0 c) + 2 * (1 - t) * t * vy (v1 c) + t\<^sup>2 * vy (v2 c))
       ((1 - t)\<^sup>2 * vz (v0 c) + 2 * (1 - t) * t * vz (v1 c) + t\<^sup>2 * vz (v2 c))"

definition createPointsGeometry :: "curve \<Rightarrow> nat \<Rightarrow> vector3 list" where
  \<comment> \<open>\<open>CurvePath.createPointsGeometry\<close> of the rendering library, for the path that holds
      the one curve. The library is not part of \<^verbatim>\<open>sphere_graph.js\<close>; the model follows its
      behaviour, not section 4.3, step 5, of the specification, which reads the argument
      as the number of points. The argument is the number of divisions (5 when it is
      missing or 0): the geometry has one vertex for each \<open>d = 0, ..., divisions\<close>, the
      first at the start of the curve and the last at its end. The library places the
      vertices in between by arc length; the model places them at the parameters
      \<open>d / divisions\<close>.\<close>
  "createPointsGeometry c n =
     (let divisions = (if n = 0 then 5 else n)
      in map (\<lambda>d. getPoint c (real d / real divisions)) [0..<Suc divisions])"

definition vector3_of :: "coords \<Rightarrow> vector3 option" where
  \<comment> \<open>Reading \<^verbatim>\<open>p['x']\<close>, \<^verbatim>\<open>p['y']\<close> and \<^verbatim>\<open>p['z']\<close> as numbers. A position that
      \<^verbatim>\<open>drawNode\<close> has not yet written has no \<^verbatim>\<open>z\<close>; JavaScript then computes with
      \<^verbatim>\<open>undefined\<close> and gets \<^verbatim>\<open>NaN\<close>, which the model reports as \<open>None\<close>.\<close>
  "vector3_of p = (case pos_z p of None \<Rightarrow> None | Some z \<Rightarrow> Some (Vector3 (pos_x p) (pos_y p) z))"

definition drawEdge_curve :: "node \<Rightarrow> node \<Rightarrow> state \<Rightarrow> curve option" where
  \<comment> \<open>Lines 359 to 369: the curve that \<^verbatim>\<open>drawEdge\<close> builds. The test for the name
      \<^verbatim>\<open>"Santiago"\<close> on line 367 has an empty body.\<close>
  "drawEdge_curve source target s =
     (case (vector3_of (heap s (position source)), vector3_of (heap s (position target))) of
        (Some sourceXy, Some targetXy) \<Rightarrow>
          (let AvgX = (vx sourceXy + vx targetXy) / 2;
               AvgY = (vy sourceXy + vy targetXy) / 2;
               AvgZ = (vz sourceXy + vz targetXy) / 2;
               diffX = \<bar>vx sourceXy - vx targetXy\<bar>;
               diffY = \<bar>vy sourceXy - vy targetXy\<bar>;
               middle = Vector3 AvgX AvgY (AvgZ + (diffX + diffY / 1.3))
           in Some (QuadraticBezierCurve3
                (Vector3 (vx sourceXy) (vy sourceXy) (vz sourceXy))
                middle
                (Vector3 (vx targetXy) (vy targetXy) (vz targetXy))))
      | _ \<Rightarrow> None)"

definition drawEdge :: "node \<Rightarrow> node \<Rightarrow> state \<Rightarrow> state option" where
  \<comment> \<open>Lines 370 to 377: the path holds the curve, its geometry for 400 divisions becomes
      a line, and the line is added to the scene. \<open>None\<close> stands for a line with \<^verbatim>\<open>NaN\<close> vertices,
      which JavaScript builds when an end point has not been drawn.\<close>
  "drawEdge source target s =
     (case drawEdge_curve source target s of
        None \<Rightarrow> None
      | Some curve \<Rightarrow> Some (s\<lparr>scene := scene s @ [Line (createPointsGeometry curve 400)]\<rparr>))"

subsection \<open>\<^verbatim>\<open>createGraph\<close>\<close>

definition cities :: "(string \<times> coords) list" where
  "cities =
     [(''Bordeax'',  \<lparr>pos_x = 44,  pos_y = 0,   pos_z = None\<rparr>),
      (''Bangkok'',  \<lparr>pos_x = 13,  pos_y = 100, pos_z = None\<rparr>),
      (''Bombay'',   \<lparr>pos_x = 19,  pos_y = 72,  pos_z = None\<rparr>),
      (''Beijing'',  \<lparr>pos_x = 39,  pos_y = 116, pos_z = None\<rparr>),
      (''Berlin'',   \<lparr>pos_x = 52,  pos_y = 13,  pos_z = None\<rparr>),
      (''Brisbane'', \<lparr>pos_x = -27, pos_y = 153, pos_z = None\<rparr>),
      (''Santiago'', \<lparr>pos_x = -33, pos_y = -70, pos_z = None\<rparr>)]"

definition alloc_cities :: "state \<Rightarrow> state" where
  \<comment> \<open>Evaluating the literal \<^verbatim>\<open>cities\<close> creates its seven position objects: the one of
      \<^verbatim>\<open>cities[i]\<close> is put at address \<open>i\<close>.\<close>
  "alloc_cities s =
     s\<lparr>heap := (\<lambda>a. if a < length cities then snd (cities ! a) else heap s a)\<rparr>"

definition city_node :: "nat \<Rightarrow> node" where
  \<comment> \<open>Lines 239 to 241: \<^verbatim>\<open>new Node(i)\<close> with the name of \<^verbatim>\<open>cities[i]\<close> and, as its
      \<^verbatim>\<open>position\<close>, the position object of \<^verbatim>\<open>cities[i]\<close> itself.\<close>
  "city_node i = \<lparr>node_id = i, data_name = fst (cities ! i), position = i\<rparr>"

fun node_loop :: "nat list \<Rightarrow> node list \<Rightarrow> state \<Rightarrow> node list \<times> state" where
  \<comment> \<open>Lines 238 to 245, over the indices \<open>i\<close>. The result of \<^verbatim>\<open>graph.addNode(node)\<close> is
      dropped and \<^verbatim>\<open>drawNode(node)\<close> is called in any case.\<close>
  "node_loop [] ns s = (ns, s)"
| "node_loop (i # is) ns s =
     (let node = city_node i;
          ns' = ns @ [node];
          s' = s\<lparr>graph := snd (addNode (graph s) node)\<rparr>
      in node_loop is ns' (drawNode node s'))"

fun target_loop :: "node \<Rightarrow> node list \<Rightarrow> state \<Rightarrow> state option" where
  \<comment> \<open>Lines 249 to 254: \<^verbatim>\<open>drawEdge\<close> is called only when \<^verbatim>\<open>graph.addEdge\<close> returns true.\<close>
  "target_loop current [] s = Some s"
| "target_loop current (target # ts) s =
     (case addEdge (graph s) current target of
        (True, g) \<Rightarrow>
          (case drawEdge current target (s\<lparr>graph := g\<rparr>) of
             None \<Rightarrow> None
           | Some s' \<Rightarrow> target_loop current ts s')
      | (False, g) \<Rightarrow> target_loop current ts (s\<lparr>graph := g\<rparr>))"

fun edge_loop :: "node list \<Rightarrow> state \<Rightarrow> state option" where
  \<comment> \<open>Lines 247 to 255: \<^verbatim>\<open>nodes.shift()\<close> takes the first node off, the inner loop pairs
      it with every node left.\<close>
  "edge_loop [] s = Some s"
| "edge_loop (current # ns) s =
     (case target_loop current ns s of
        None \<Rightarrow> None
      | Some s' \<Rightarrow> edge_loop ns s')"

definition createGraph :: "state \<Rightarrow> state option" where
  "createGraph s =
     (case node_loop [0..<length cities] [] (alloc_cities s) of
        (ns, s') \<Rightarrow> edge_loop ns s')"

definition SphereGraph :: "options \<Rightarrow> state option" where
  \<comment> \<open>Lines 130 and 131: \<^verbatim>\<open>init(); createGraph();\<close>.\<close>
  "SphereGraph opts = createGraph (init opts)"

subsection \<open>The projection and the arc as the specification words them\<close>

definition project :: "real \<Rightarrow> real \<times> real \<Rightarrow> vector3" where
  \<comment> \<open>Section 4.2 of the specification, for a sphere of radius \<open>R\<close>.\<close>
  "project R geo =
     (let phi = (90 - fst geo) * pi / 180;
          theta = (180 - snd geo) * pi / 180
      in Vector3 (R * sin phi * cos theta) (R * cos phi) (R * sin phi * sin theta))"

definition bulged_midpoint :: "vector3 \<Rightarrow> vector3 \<Rightarrow> vector3" where
  \<comment> \<open>Section 4.3 of the specification, steps 1 to 3.\<close>
  "bulged_midpoint a b =
     (let dx = \<bar>vx a - vx b\<bar>; dy = \<bar>vy a - vy b\<bar>
      in Vector3 ((vx a + vx b) / 2) ((vy a + vy b) / 2) ((vz a + vz b) / 2 + (dx + dy / 1.3)))"

definition arc :: "vector3 \<Rightarrow> vector3 \<Rightarrow> curve" where
  \<comment> \<open>Section 4.3 of the specification, step 4.\<close>
  "arc a b = QuadraticBezierCurve3 a (bulged_midpoint a b) b"

definition city_point :: "nat \<Rightarrow> vector3" where
  \<comment> \<open>The projected position of the \<open>i\<close>-th reference city, by the formula of section 4.2.\<close>
  "city_point i = project 5000 (pos_x (snd (cities ! i)), pos_y (snd (cities ! i)))"

definition city_arc :: "node \<times> node \<Rightarrow> scene_object" where
  \<comment> \<open>The line of the arc between the projected positions of an edge's two cities,
      sampled as \<^verbatim>\<open>drawEdge\<close> does.\<close>
  "city_arc e =
     Line (createPointsGeometry
       (arc (city_point (node_id (fst e))) (city_point (node_id (snd e)))) 400)"

subsection \<open>Notions used to state the properties\<close>

definition on_sphere :: "coords \<Rightarrow> coords" where
  \<comment> \<open>The content of a position object after \<^verbatim>\<open>drawNode\<close>, from its content before.\<close>
  "on_sphere p =
     \<lparr>pos_x = 5000 * sin ((90 - pos_x p) * pi / 180) * cos ((180 - pos_y p) * pi / 180),
      pos_y = 5000 * cos ((90 - pos_x p) * pi / 180),
      pos_z = Some (5000 * sin ((90 - pos_x p) * pi / 180) * sin ((180 - pos_y p) * pi / 180))\<rparr>"

definition with_position :: "node \<Rightarrow> real \<Rightarrow> real \<Rightarrow> state \<Rightarrow> state" where
  \<comment> \<open>The state in which the position object of node \<open>n\<close> is \<^verbatim>\<open>{x: x, y: y}\<close>.\<close>
  "with_position n x y s =
     s\<lparr>heap := (heap s)(position n := \<lparr>pos_x = x, pos_y = y, pos_z = None\<rparr>)\<rparr>"

definition distance_from_origin :: "vector3 \<Rightarrow> real" where
  "distance_from_origin v = sqrt ((vx v)\<^sup>2 + (vy v)\<^sup>2 + (vz v)\<^sup>2)"

definition pole_to_pole :: state where
  \<comment> \<open>A state with two drawn nodes: node 0 set on the north pole, node 1 on the south pole.\<close>
  "pole_to_pole =
     drawNode (city_node 1) (with_position (city_node 1) (- 90) 0
       (drawNode (city_node 0) (with_position (city_node 0) 90 0 (init \<lparr>opt_limit = None\<rparr>))))"

fun pairs :: "'a list \<Rightarrow> ('a \<times> 'a) list" where
  \<comment> \<open>Every element with every later one, in the order of the two loops.\<close>
  "pairs [] = []"
| "pairs (x # xs) = map (Pair x) xs @ pairs xs"

section \<open>Properties\<close>

subsection \<open>What the loops compute\<close>

lemma drawNode_state:
  "drawNode n s =
     s\<lparr>heap := (heap s)(position n := on_sphere (heap s (position n))),
       scene := scene s @ [Mesh (node_id n) (position n)]\<rparr>"
  by (cases "heap s (position n)") (simp add: drawNode_def Let_def on_sphere_def)

lemma vector3_of_on_sphere:
  "vector3_of (on_sphere p) = Some (project 5000 (pos_x p, pos_y p))"
  by (simp add: vector3_of_def on_sphere_def project_def Let_def)

lemma edges_addNode: "edges (snd (addNode g n)) = edges g"
  by (simp add: addNode_def)

lemma node_loop_result:
  "distinct is \<Longrightarrow>
   node_loop is ns s =
     (ns @ map city_node is,
      s\<lparr>heap := (\<lambda>a. if a \<in> set is then on_sphere (heap s a) else heap s a),
        graph := foldl (\<lambda>g i. snd (addNode g (city_node i))) (graph s) is,
        scene := scene s @ map (\<lambda>i. Mesh i i) is\<rparr>)"
proof (induction "is" arbitrary: ns s)
  case Nil
  show ?case by simp
next
  case (Cons i "is")
  have pos: "position (city_node i) = i" and nid: "node_id (city_node i) = i"
    by (simp_all add: city_node_def)
  from Cons.prems have d: "distinct is" and ni: "i \<notin> set is" by simp_all
  show ?case
    using ni by (simp add: Cons.IH [OF d] Let_def drawNode_state pos nid fun_eq_iff)
qed

lemma drawEdge_curve_arc:
  "vector3_of (heap s (position a)) = Some va \<Longrightarrow>
   vector3_of (heap s (position b)) = Some vb \<Longrightarrow>
   drawEdge_curve a b s = Some (arc va vb)"
  by (cases va; cases vb) (simp add: drawEdge_curve_def arc_def bulged_midpoint_def Let_def)

lemma target_loop_result:
  assumes "\<forall>t\<in>set ts. node_id t \<noteq> node_id c"
    and "distinct (map node_id ts)"
    and "\<forall>e\<in>set (edges (graph s)). \<forall>t\<in>set ts. \<not> connects c t e"
    and "vector3_of (heap s (position c)) = Some (P c)"
    and "\<forall>t\<in>set ts. vector3_of (heap s (position t)) = Some (P t)"
  shows "target_loop c ts s =
     Some (s\<lparr>graph := (graph s)\<lparr>edges := edges (graph s) @ map (Pair c) ts\<rparr>,
             scene := scene s @ map (\<lambda>t. Line (createPointsGeometry (arc (P c) (P t)) 400)) ts\<rparr>)"
  using assms
proof (induction ts arbitrary: s)
  case Nil
  show ?case by simp
next
  case (Cons t ts)
  let ?g = "(graph s)\<lparr>edges := edges (graph s) @ [(c, t)]\<rparr>"
  let ?s1 = "s\<lparr>graph := ?g, scene := scene s @ [Line (createPointsGeometry (arc (P c) (P t)) 400)]\<rparr>"
  from Cons.prems have add: "addEdge (graph s) c t = (True, ?g)"
    by (auto simp: addEdge_def list_ex_iff)
  from Cons.prems have draw: "drawEdge c t (s\<lparr>graph := ?g\<rparr>) = Some ?s1"
    by (simp add: drawEdge_def drawEdge_curve_arc [where va = "P c" and vb = "P t"])
  have "target_loop c ts ?s1 =
     Some (?s1\<lparr>graph := (graph ?s1)\<lparr>edges := edges (graph ?s1) @ map (Pair c) ts\<rparr>,
             scene := scene ?s1 @ map (\<lambda>t. Line (createPointsGeometry (arc (P c) (P t)) 400)) ts\<rparr>)"
  proof (rule Cons.IH)
    show "\<forall>t\<in>set ts. node_id t \<noteq> node_id c" using Cons.prems by simp
    show "distinct (map node_id ts)" using Cons.prems by simp
    show "\<forall>e\<in>set (edges (graph ?s1)). \<forall>t\<in>set ts. \<not> connects c t e"
      using Cons.prems by (auto simp: connects_def)
    show "vector3_of (heap ?s1 (position c)) = Some (P c)" using Cons.prems by simp
    show "\<forall>t\<in>set ts. vector3_of (heap ?s1 (position t)) = Some (P t)" using Cons.prems by simp
  qed
  then show ?case by (simp add: add draw)
qed

lemma edge_loop_result:
  assumes "distinct (map node_id ns)"
    and "\<forall>e\<in>set (edges (graph s)). \<forall>a\<in>set ns. \<forall>b\<in>set ns. \<not> connects a b e"
    and "\<forall>n\<in>set ns. vector3_of (heap s (position n)) = Some (P n)"
  shows "edge_loop ns s =
     Some (s\<lparr>graph := (graph s)\<lparr>edges := edges (graph s) @ pairs ns\<rparr>,
             scene := scene s @
               map (\<lambda>(a, b). Line (createPointsGeometry (arc (P a) (P b)) 400)) (pairs ns)\<rparr>)"
  using assms
proof (induction ns arbitrary: s)
  case Nil
  show ?case by simp
next
  case (Cons c ns)
  let ?s1 = "s\<lparr>graph := (graph s)\<lparr>edges := edges (graph s) @ map (Pair c) ns\<rparr>,
             scene := scene s @ map (\<lambda>t. Line (createPointsGeometry (arc (P c) (P t)) 400)) ns\<rparr>"
  have inner: "target_loop c ns s = Some ?s1"
  proof (rule target_loop_result)
    show "\<forall>t\<in>set ns. node_id t \<noteq> node_id c" using Cons.prems(1) by (auto simp: image_iff)
    show "distinct (map node_id ns)" using Cons.prems(1) by simp
    show "\<forall>e\<in>set (edges (graph s)). \<forall>t\<in>set ns. \<not> connects c t e" using Cons.prems(2) by simp
    show "vector3_of (heap s (position c)) = Some (P c)" using Cons.prems(3) by simp
    show "\<forall>t\<in>set ns. vector3_of (heap s (position t)) = Some (P t)" using Cons.prems(3) by simp
  qed
  have "edge_loop ns ?s1 =
     Some (?s1\<lparr>graph := (graph ?s1)\<lparr>edges := edges (graph ?s1) @ pairs ns\<rparr>,
             scene := scene ?s1 @
               map (\<lambda>(a, b). Line (createPointsGeometry (arc (P a) (P b)) 400)) (pairs ns)\<rparr>)"
  proof (rule Cons.IH)
    show "distinct (map node_id ns)" using Cons.prems(1) by simp
    show "\<forall>e\<in>set (edges (graph ?s1)). \<forall>a\<in>set ns. \<forall>b\<in>set ns. \<not> connects a b e"
      using Cons.prems(1,2) by (auto simp: connects_def)
    show "\<forall>n\<in>set ns. vector3_of (heap ?s1 (position n)) = Some (P n)" using Cons.prems(3) by simp
  qed
  then show ?case by (simp add: inner comp_def)
qed

lemma edges_foldl_addNode:
  "edges (foldl (\<lambda>g i. snd (addNode g (city_node i))) g is) = edges g"
  by (induction "is" arbitrary: g) (simp_all add: edges_addNode)

lemma nodes_loop_state:
  "node_loop [0..<length cities] [] (alloc_cities (init opts)) =
     (map city_node [0..<length cities],
      \<lparr>heap = (\<lambda>a. if a < length cities then on_sphere (snd (cities ! a))
                    else \<lparr>pos_x = 0, pos_y = 0, pos_z = None\<rparr>),
       graph = foldl (\<lambda>g i. snd (addNode g (city_node i)))
                 \<lparr>limit = opt_limit opts, nodes = [], edges = []\<rparr> [0..<length cities],
       scene = Globe # map (\<lambda>i. Mesh i i) [0..<length cities]\<rparr>)"
  by (simp add: node_loop_result alloc_cities_def init_def fun_eq_iff)

lemma SphereGraph_state:
  "SphereGraph opts =
     Some \<lparr>heap = (\<lambda>a. if a < length cities then on_sphere (snd (cities ! a))
                    else \<lparr>pos_x = 0, pos_y = 0, pos_z = None\<rparr>),
       graph = (foldl (\<lambda>g i. snd (addNode g (city_node i)))
                 \<lparr>limit = opt_limit opts, nodes = [], edges = []\<rparr> [0..<length cities])
                 \<lparr>edges := pairs (map city_node [0..<length cities])\<rparr>,
       scene = Globe # map (\<lambda>i. Mesh i i) [0..<length cities] @
                 map city_arc (pairs (map city_node [0..<length cities]))\<rparr>"
proof -
  let ?ns = "map city_node [0..<length cities]"
  let ?s1 = "snd (node_loop [0..<length cities] [] (alloc_cities (init opts)))"
  have ids: "map node_id ?ns = [0..<length cities]"
    by (simp add: city_node_def comp_def)
  have "edge_loop ?ns ?s1 =
     Some (?s1\<lparr>graph := (graph ?s1)\<lparr>edges := edges (graph ?s1) @ pairs ?ns\<rparr>,
             scene := scene ?s1 @
               map (\<lambda>(a, b). Line (createPointsGeometry
                  (arc ((city_point \<circ> node_id) a) ((city_point \<circ> node_id) b)) 400)) (pairs ?ns)\<rparr>)"
  proof (rule edge_loop_result)
    show "distinct (map node_id ?ns)" by (simp only: ids distinct_upt)
    show "\<forall>e\<in>set (edges (graph ?s1)). \<forall>a\<in>set ?ns. \<forall>b\<in>set ?ns. \<not> connects a b e"
      by (simp add: nodes_loop_state edges_foldl_addNode)
    show "\<forall>n\<in>set ?ns. vector3_of (heap ?s1 (position n)) = Some ((city_point \<circ> node_id) n)"
      by (simp add: nodes_loop_state city_node_def vector3_of_on_sphere city_point_def)
  qed
  then show ?thesis
    by (simp add: SphereGraph_def createGraph_def nodes_loop_state edges_foldl_addNode
        city_arc_def case_prod_unfold)
qed

lemma length_cities: "length cities = 7"
  by (simp add: cities_def)

lemma upt_7: "[0..<7] = [0, 1, 2, 3, 4, 5, 6]"
  by (simp add: upt_rec)


lemma city_pairs:
  "map (\<lambda>e. (node_id (fst e), node_id (snd e))) (pairs (map city_node [0..<length cities])) =
     [(0, 1), (0, 2), (0, 3), (0, 4), (0, 5), (0, 6),
      (1, 2), (1, 3), (1, 4), (1, 5), (1, 6),
      (2, 3), (2, 4), (2, 5), (2, 6),
      (3, 4), (3, 5), (3, 6),
      (4, 5), (4, 6),
      (5, 6)]"
  by (simp add: length_cities upt_7 city_node_def)

subsection \<open>Bounds on \<open>pi\<close>, sine and cosine\<close>

lemma arctan_enclosure:
  fixes x :: real
  assumes "0 < x" and "x \<le> 1"
  shows "(\<Sum>k<2 * n. (- 1) ^ k * (1 / real (k * 2 + 1) * x ^ (k * 2 + 1))) \<le> arctan x"
    and "arctan x \<le> (\<Sum>k<2 * n + 1. (- 1) ^ k * (1 / real (k * 2 + 1) * x ^ (k * 2 + 1)))"
proof -
  from assms have small: "\<bar>x\<bar> \<le> 1" by simp
  let ?a = "\<lambda>k. 1 / real (k * 2 + 1) * x ^ (k * 2 + 1)"
  from assms have "0 < ?a 0" by simp
  with summable_Leibniz(2) [OF zeroseq_arctan_series [OF small] monoseq_arctan_series [OF small]]
  have "(\<Sum>k. (- 1) ^ k * ?a k) \<in> {\<Sum>k<2 * n. (- 1) ^ k * ?a k .. \<Sum>k<2 * n + 1. (- 1) ^ k * ?a k}"
    by blast
  then show "(\<Sum>k<2 * n. (- 1) ^ k * ?a k) \<le> arctan x"
    and "arctan x \<le> (\<Sum>k<2 * n + 1. (- 1) ^ k * ?a k)"
    by (simp_all add: arctan_series [OF small])
qed

lemma pi_by_arctan: "pi = 16 * arctan (1 / 5) - 4 * arctan (1 / 239)"
  using machin by simp

lemma double_pi_below_pi: "884279719003555 / 2 ^ 48 < pi"
  unfolding pi_by_arctan
  using arctan_enclosure(1) [of "1 / 5" 7] arctan_enclosure(2) [of "1 / 239" 2]
  by (simp add: eval_nat_numeral)

lemma pi_below: "pi < 884279719003555 / 2 ^ 48 + 1 / 1000000000"
  unfolding pi_by_arctan
  using arctan_enclosure(2) [of "1 / 5" 3] arctan_enclosure(1) [of "1 / 239" 1]
  by (simp add: eval_nat_numeral)

lemma sin_lipschitz: "\<bar>sin x - sin y\<bar> \<le> \<bar>x - y\<bar>" for x y :: real
proof -
  have "\<bar>sin x - sin y\<bar> = 2 * \<bar>sin ((x - y) / 2)\<bar> * \<bar>cos ((x + y) / 2)\<bar>"
    by (simp add: sin_diff_sin abs_mult)
  also have "\<dots> \<le> 2 * \<bar>(x - y) / 2\<bar> * 1"
    by (intro mult_mono abs_sin_x_le_abs_x abs_cos_le_one) simp_all
  finally show ?thesis by simp
qed

lemma cos_lipschitz: "\<bar>cos x - cos y\<bar> \<le> \<bar>x - y\<bar>" for x y :: real
proof -
  have "\<bar>cos x - cos y\<bar> = 2 * \<bar>sin ((y - x) / 2)\<bar> * \<bar>sin ((x + y) / 2)\<bar>"
    by (simp add: cos_diff_cos abs_mult mult.commute mult.left_commute)
  also have "\<dots> \<le> 2 * \<bar>(y - x) / 2\<bar> * 1"
    by (intro mult_mono abs_sin_x_le_abs_x abs_sin_le_one) simp_all
  finally show ?thesis by (simp add: abs_minus_commute)
qed

subsection \<open>\<^verbatim>\<open>drawNode\<close> for an inexact \<^verbatim>\<open>Math\<close> object\<close>

lemma drawNode_real_Math: "drawNode_with real_Math n s = drawNode n s"
  by (simp add: drawNode_with_def drawNode_def real_Math_def)

lemma drawNode_with_position:
  "vector3_of (heap (drawNode_with m n (with_position n x y s)) (position n)) =
     Some (Vector3
       (5000 * Math_sin m ((90 - x) * Math_PI m / 180) * Math_cos m ((180 - y) * Math_PI m / 180))
       (5000 * Math_cos m ((90 - x) * Math_PI m / 180))
       (5000 * Math_sin m ((90 - x) * Math_PI m / 180) * Math_sin m ((180 - y) * Math_PI m / 180)))"
  by (simp add: drawNode_with_def with_position_def vector3_of_def Let_def)

lemma accurate_double_Math: "accurate double_Math"
  using double_pi_below_pi pi_below by (simp add: accurate_def double_Math_def)

lemma accurate_sin:
  assumes "accurate m" and "\<bar>t - u\<bar> \<le> 1 / 1000000000"
  shows "\<bar>Math_sin m t - sin u\<bar> \<le> 2 / 1000000000"
proof -
  from assms(1) have 1: "\<bar>Math_sin m t - sin t\<bar> \<le> 1 / 1000000000" by (simp add: accurate_def)
  have 2: "\<bar>sin t - sin u\<bar> \<le> 1 / 1000000000" using sin_lipschitz [of t u] assms(2) by simp
  have "\<bar>Math_sin m t - sin u\<bar> \<le> \<bar>Math_sin m t - sin t\<bar> + \<bar>sin t - sin u\<bar>" by simp
  also have "\<dots> \<le> 1 / 1000000000 + 1 / 1000000000" by (rule add_mono [OF 1 2])
  finally show ?thesis by simp
qed

lemma accurate_cos:
  assumes "accurate m" and "\<bar>t - u\<bar> \<le> 1 / 1000000000"
  shows "\<bar>Math_cos m t - cos u\<bar> \<le> 2 / 1000000000"
proof -
  from assms(1) have 1: "\<bar>Math_cos m t - cos t\<bar> \<le> 1 / 1000000000" by (simp add: accurate_def)
  have 2: "\<bar>cos t - cos u\<bar> \<le> 1 / 1000000000" using cos_lipschitz [of t u] assms(2) by simp
  have "\<bar>Math_cos m t - cos u\<bar> \<le> \<bar>Math_cos m t - cos t\<bar> + \<bar>cos t - cos u\<bar>" by simp
  also have "\<dots> \<le> 1 / 1000000000 + 1 / 1000000000" by (rule add_mono [OF 1 2])
  finally show ?thesis by simp
qed

lemma near_product:
  fixes a b t e :: real
  assumes "\<bar>a - 1\<bar> \<le> e" and "\<bar>b - t\<bar> \<le> e" and "e \<le> 1" and "\<bar>t\<bar> \<le> 1"
  shows "\<bar>a * b - t\<bar> \<le> 3 * e"
proof -
  from assms(1,3) have a: "\<bar>a\<bar> \<le> 2" by simp
  from assms(1) have e: "0 \<le> e" by simp
  have "a * b - t = a * (b - t) + (a - 1) * t" by (simp add: algebra_simps)
  then have "\<bar>a * b - t\<bar> \<le> \<bar>a\<bar> * \<bar>b - t\<bar> + \<bar>a - 1\<bar> * \<bar>t\<bar>"
    by (simp add: abs_mult [symmetric])
  also have "\<dots> \<le> 2 * e + e * 1"
    using a e assms by (intro add_mono mult_mono) simp_all
  finally show ?thesis by simp
qed


lemma distance_near:
  "\<bar>distance_from_origin (Vector3 x y z) - \<bar>x\<bar>\<bar> \<le> \<bar>y\<bar> + \<bar>z\<bar>"
proof -
  have lo: "\<bar>x\<bar> \<le> sqrt (x\<^sup>2 + y\<^sup>2 + z\<^sup>2)"
    by (rule real_le_rsqrt) simp
  have "sqrt (x\<^sup>2 + y\<^sup>2 + z\<^sup>2) = sqrt ((sqrt (x\<^sup>2 + y\<^sup>2))\<^sup>2 + z\<^sup>2)" by simp
  also have "\<dots> \<le> \<bar>sqrt (x\<^sup>2 + y\<^sup>2)\<bar> + \<bar>z\<bar>" by (rule sqrt_sum_squares_le_sum_abs)
  also have "\<dots> \<le> (\<bar>x\<bar> + \<bar>y\<bar>) + \<bar>z\<bar>"
    using sqrt_sum_squares_le_sum_abs [of x y] by simp
  finally show ?thesis using lo by (simp add: distance_from_origin_def)
qed




subsection \<open>The projection\<close>

text \<open>
  C1. For a node whose position object holds the geographic coordinate \<open>(x, y)\<close>,
  \<^verbatim>\<open>drawNode\<close> leaves in that object the point that the specification's projection
  formula gives for radius 5000: \<open>phi = (90 - x) * pi / 180\<close>,
  \<open>theta = (180 - y) * pi / 180\<close>, and the position
  \<open>(R sin phi cos theta, R cos phi, R sin phi sin theta)\<close>.
\<close>

theorem drawNode_projects:
  "heap (drawNode n (with_position n x y s)) (position n) =
     \<lparr>pos_x = 5000 * sin ((90 - x) * pi / 180) * cos ((180 - y) * pi / 180),
      pos_y = 5000 * cos ((90 - x) * pi / 180),
      pos_z = Some (5000 * sin ((90 - x) * pi / 180) * sin ((180 - y) * pi / 180))\<rparr> \<and>
   vector3_of (heap (drawNode n s) (position n)) =
     Some (project 5000 (pos_x (heap s (position n)), pos_y (heap s (position n))))"
  by (simp add: drawNode_state with_position_def on_sphere_def vector3_of_def project_def Let_def)

text \<open>
  C3. Projecting the coordinate \<open>(0, 0)\<close> does not give a point of the plane \<open>x = 0\<close>
  near \<open>(0, 5000, 0)\<close>: \<open>phi\<close> is \<open>pi / 2\<close> and \<open>theta\<close> is \<open>pi\<close>, so in exact
  arithmetic the point is \<open>(-5000, 0, 0)\<close>.
\<close>

theorem origin_not_on_plane_x:
  "pos_x (heap (drawNode (city_node 0) (with_position (city_node 0) 0 0 (init \<lparr>opt_limit = None\<rparr>)))
      (position (city_node 0))) = - 5000 \<and>
   pos_x (heap (drawNode (city_node 0) (with_position (city_node 0) 0 0 (init \<lparr>opt_limit = None\<rparr>)))
      (position (city_node 0))) \<noteq> 0 \<and>
   pos_y (heap (drawNode (city_node 0) (with_position (city_node 0) 0 0 (init \<lparr>opt_limit = None\<rparr>)))
      (position (city_node 0))) = 0 \<and>
   pos_y (heap (drawNode (city_node 0) (with_position (city_node 0) 0 0 (init \<lparr>opt_limit = None\<rparr>)))
      (position (city_node 0))) \<noteq> 5000"
  by (simp add: drawNode_state with_position_def on_sphere_def)

text \<open>
  C3, as amended. For every \<^verbatim>\<open>Math\<close> object that is accurate to \<open>1e-9\<close>, projecting
  the coordinate \<open>(0, 0)\<close> yields a point within \<open>1e-4\<close> of \<open>(-5000, 0, 0)\<close> in each
  component: its distance from the origin is \<open>5000\<close> up to \<open>1e-3\<close>, and it lies on the
  plane \<open>y = 0\<close> up to \<open>1e-4\<close>.
\<close>

theorem drawNode_origin_approx:
  assumes "accurate m"
  shows "\<exists>v. vector3_of (heap (drawNode_with m n (with_position n 0 0 s)) (position n)) = Some v \<and>
     \<bar>vx v + 5000\<bar> \<le> 1 / 10000 \<and> \<bar>vy v\<bar> \<le> 1 / 10000 \<and> \<bar>vz v\<bar> \<le> 1 / 10000 \<and>
     \<bar>distance_from_origin v - 5000\<bar> \<le> 1 / 1000"
proof -
  define P where "P = Math_PI m"
  define a where "a = Math_sin m (P / 2)"
  define b where "b = Math_cos m P"
  define c where "c = Math_cos m (P / 2)"
  define d where "d = Math_sin m P"
  from assms have P: "\<bar>P - pi\<bar> \<le> 1 / 1000000000" by (simp add: accurate_def P_def)
  then have P2: "\<bar>P / 2 - pi / 2\<bar> \<le> 1 / 1000000000" by linarith
  have a: "\<bar>a - 1\<bar> \<le> 2 / 1000000000"
    using accurate_sin [OF assms P2] by (simp add: a_def)
  have b: "\<bar>b - (- 1)\<bar> \<le> 2 / 1000000000"
    using accurate_cos [OF assms P] by (simp add: b_def)
  have c: "\<bar>c\<bar> \<le> 2 / 1000000000"
    using accurate_cos [OF assms P2] by (simp add: c_def)
  have d: "\<bar>d - 0\<bar> \<le> 2 / 1000000000"
    using accurate_sin [OF assms P] by (simp add: d_def)
  have ab: "\<bar>a * b - (- 1)\<bar> \<le> 3 * (2 / 1000000000)"
    by (rule near_product [OF a b]) simp_all
  have ad: "\<bar>a * d - 0\<bar> \<le> 3 * (2 / 1000000000)"
    by (rule near_product [OF a d]) simp_all
  let ?v = "Vector3 (5000 * (a * b)) (5000 * c) (5000 * (a * d))"
  have v: "vector3_of (heap (drawNode_with m n (with_position n 0 0 s)) (position n)) = Some ?v"
    by (simp add: drawNode_with_position a_def b_def c_def d_def P_def)
  have x: "\<bar>5000 * (a * b) + 5000\<bar> \<le> 3 / 100000"
    using ab by linarith
  have y: "\<bar>5000 * c\<bar> \<le> 1 / 100000"
    using c by linarith
  have z: "\<bar>5000 * (a * d)\<bar> \<le> 3 / 100000"
    using ad by linarith
  from x have ax: "\<bar>\<bar>5000 * (a * b)\<bar> - 5000\<bar> \<le> 3 / 100000"
    by linarith
  have "\<bar>distance_from_origin ?v - \<bar>5000 * (a * b)\<bar>\<bar> \<le> \<bar>5000 * c\<bar> + \<bar>5000 * (a * d)\<bar>"
    by (rule distance_near)
  with y z have "\<bar>distance_from_origin ?v - \<bar>5000 * (a * b)\<bar>\<bar> \<le> 4 / 100000"
    by linarith
  with ax have dist: "\<bar>distance_from_origin ?v - 5000\<bar> \<le> 1 / 1000"
    by linarith
  have "\<bar>vx ?v + 5000\<bar> \<le> 1 / 10000" "\<bar>vy ?v\<bar> \<le> 1 / 10000" "\<bar>vz ?v\<bar> \<le> 1 / 10000"
    unfolding vector3.sel using x y z by linarith+
  with v dist show ?thesis by blast
qed

theorem drawNode_origin_approx_witness:
  "\<exists>v. vector3_of (heap (drawNode_with double_Math (city_node 0)
       (with_position (city_node 0) 0 0 (init \<lparr>opt_limit = None\<rparr>))) (position (city_node 0))) = Some v \<and>
     \<bar>vx v + 5000\<bar> \<le> 1 / 10000 \<and> \<bar>vy v\<bar> \<le> 1 / 10000 \<and> \<bar>vz v\<bar> \<le> 1 / 10000 \<and>
     \<bar>distance_from_origin v - 5000\<bar> \<le> 1 / 1000"
  by (rule drawNode_origin_approx [OF accurate_double_Math])




text \<open>
  C5. The original coordinate of a node is not retained: the first city's position
  object holds \<open>x = 44\<close> when it is created, and after \<^verbatim>\<open>drawNode\<close> its \<open>x\<close> is
  negative. The node has no other copy of the coordinate, and the object is the one of
  the \<^verbatim>\<open>cities\<close> literal.
\<close>

theorem Bordeax_overwritten:
  "pos_x (heap (alloc_cities (init \<lparr>opt_limit = None\<rparr>)) (position (city_node 0))) = 44 \<and>
   pos_x (heap (drawNode (city_node 0) (alloc_cities (init \<lparr>opt_limit = None\<rparr>)))
      (position (city_node 0))) < 0"
proof -
  have "0 < sin (46 * pi / 180)"
    by (rule sin_gt_zero) (simp_all add: pi_gt_zero)
  then have "5000 * sin ((90 - 44) * pi / 180) * cos ((180 - 0) * pi / 180) < 0"
    by simp
  then show ?thesis
    by (simp add: drawNode_state alloc_cities_def cities_def city_node_def on_sphere_def init_def)
qed

text \<open>
  C5, as amended. A node has one position object. \<^verbatim>\<open>drawNode\<close> computes the 3D
  position from the coordinate that this object holds and writes it into the same
  object, replacing \<open>x\<close> and \<open>y\<close> and adding \<open>z\<close>; no other object changes. After
  \<^verbatim>\<open>createGraph\<close> the position of every city's node is the projection of the city's
  literal coordinate.
\<close>

theorem drawNode_overwrites_position:
  "heap (drawNode n s) = (heap s)(position n := on_sphere (heap s (position n))) \<and>
   vector3_of (on_sphere (heap s (position n))) =
     Some (project 5000 (pos_x (heap s (position n)), pos_y (heap s (position n)))) \<and>
   (\<exists>s'. SphereGraph opts = Some s' \<and>
      map (\<lambda>i. vector3_of (heap s' (position (city_node i)))) [0..<7] =
      map (\<lambda>i. Some (city_point i)) [0..<7])"
proof -
  have "\<exists>s'. SphereGraph opts = Some s' \<and>
      map (\<lambda>i. vector3_of (heap s' (position (city_node i)))) [0..<7] =
      map (\<lambda>i. Some (city_point i)) [0..<7]"
    unfolding SphereGraph_state
    by (simp add: length_cities city_node_def vector3_of_on_sphere city_point_def)
  then show ?thesis
    by (simp add: drawNode_state vector3_of_on_sphere)
qed

subsection \<open>The arc\<close>

lemma pole_to_pole_heap:
  "heap pole_to_pole (position (city_node 0)) = \<lparr>pos_x = 0, pos_y = 5000, pos_z = Some 0\<rparr>"
  "heap pole_to_pole (position (city_node 1)) = \<lparr>pos_x = 0, pos_y = - 5000, pos_z = Some 0\<rparr>"
  by (simp_all add: pole_to_pole_def drawNode_state with_position_def on_sphere_def city_node_def)

lemma createPointsGeometry_length:
  "0 < n \<Longrightarrow> length (createPointsGeometry c n) = Suc n"
  by (simp add: createPointsGeometry_def)

lemma getPoint_ends: "getPoint c 0 = v0 c" "getPoint c 1 = v2 c"
  by (simp_all add: getPoint_def)

lemma createPointsGeometry_ends:
  assumes "0 < n"
  shows "hd (createPointsGeometry c n) = v0 c" and "last (createPointsGeometry c n) = v2 c"
proof -
  from assms have n: "n \<noteq> 0" "real n \<noteq> 0" by simp_all
  show "hd (createPointsGeometry c n) = v0 c"
    using n by (simp add: createPointsGeometry_def hd_map getPoint_ends upt_conv_Cons del: upt_Suc)
  show "last (createPointsGeometry c n) = v2 c"
    using n by (simp add: createPointsGeometry_def getPoint_ends)
qed

lemma getPoint_reversed:
  assumes "v0 c' = v2 c" "v1 c' = v1 c" "v2 c' = v0 c"
  shows "getPoint c' t = getPoint c (1 - t)"
  using assms by (simp add: getPoint_def algebra_simps)

lemma createPointsGeometry_reversed:
  assumes "v0 c' = v2 c" "v1 c' = v1 c" "v2 c' = v0 c" and "0 < n"
  shows "createPointsGeometry c' n = rev (createPointsGeometry c n)"
proof (rule nth_equalityI)
  show "length (createPointsGeometry c' n) = length (rev (createPointsGeometry c n))"
    using assms(4) by (simp add: createPointsGeometry_length)
next
  fix i assume "i < length (createPointsGeometry c' n)"
  with assms(4) have i: "i \<le> n" by (simp add: createPointsGeometry_length)
  from assms(4) have pos: "0 < real n" by simp
  from i have "real (n - i) = real n - real i" by (simp add: of_nat_diff)
  then have "real (n - i) / real n = 1 - real i / real n"
    using pos by (simp add: diff_divide_distrib)
  then have "getPoint c' (real i / real n) = getPoint c (real (n - i) / real n)"
    by (simp add: getPoint_reversed [OF assms(1-3)])
  moreover have "[0..<Suc n] ! i = i" and "[0..<Suc n] ! (n - i) = n - i"
    using i by (simp_all del: upt_Suc)
  then have "createPointsGeometry c' n ! i = getPoint c' (real i / real n)"
    and "createPointsGeometry c n ! (n - i) = getPoint c (real (n - i) / real n)"
    using i assms(4) by (simp_all add: createPointsGeometry_def del: upt_Suc of_nat_diff)
  ultimately show "createPointsGeometry c' n ! i = rev (createPointsGeometry c n) ! i"
    using i assms(4) by (simp add: rev_nth createPointsGeometry_length)
qed

lemma drawEdge_curve_coords:
  assumes "heap s (position source) = \<lparr>pos_x = sx, pos_y = sy, pos_z = Some sz\<rparr>"
    and "heap s (position target) = \<lparr>pos_x = tx, pos_y = ty, pos_z = Some tz\<rparr>"
  shows "drawEdge_curve source target s =
     Some (QuadraticBezierCurve3
       (Vector3 sx sy sz)
       (Vector3 ((sx + tx) / 2) ((sy + ty) / 2) ((sz + tz) / 2 + (\<bar>sx - tx\<bar> + \<bar>sy - ty\<bar> / 1.3)))
       (Vector3 tx ty tz))"
  using assms by (simp add: drawEdge_curve_def vector3_of_def Let_def)

text \<open>
  C2. For two drawn nodes, with positions \<open>(sx, sy, sz)\<close> and \<open>(tx, ty, tz)\<close>,
  \<^verbatim>\<open>drawEdge\<close> builds the quadratic Bezier curve with the control points: the source;
  the componentwise midpoint with \<open>|sx - tx| + |sy - ty| / 1.3\<close> added to its \<open>z\<close>;
  the target. That is the arc of the specification, and the line it adds to the scene
  is the geometry of this curve.
\<close>

theorem drawEdge_control_points:
  assumes "heap s (position source) = \<lparr>pos_x = sx, pos_y = sy, pos_z = Some sz\<rparr>"
    and "heap s (position target) = \<lparr>pos_x = tx, pos_y = ty, pos_z = Some tz\<rparr>"
  shows "\<exists>c. drawEdge_curve source target s = Some c \<and>
     v0 c = Vector3 sx sy sz \<and>
     v1 c = Vector3 ((sx + tx) / 2) ((sy + ty) / 2) ((sz + tz) / 2 + (\<bar>sx - tx\<bar> + \<bar>sy - ty\<bar> / 1.3)) \<and>
     v2 c = Vector3 tx ty tz \<and>
     c = arc (Vector3 sx sy sz) (Vector3 tx ty tz) \<and>
     drawEdge source target s = Some (s\<lparr>scene := scene s @ [Line (createPointsGeometry c 400)]\<rparr>)"
  by (simp add: drawEdge_curve_coords [OF assms] drawEdge_def arc_def bulged_midpoint_def)

theorem drawEdge_control_points_witness:
  "\<exists>c. drawEdge_curve (city_node 0) (city_node 1) pole_to_pole = Some c \<and>
     v0 c = Vector3 0 5000 0 \<and>
     v1 c = Vector3 0 0 (100000 / 13) \<and>
     v2 c = Vector3 0 (- 5000) 0"
  using drawEdge_control_points [OF pole_to_pole_heap]
  by simp

text \<open>
  C4. The line of an arc does not have 400 vertices: \<^verbatim>\<open>createPointsGeometry(400)\<close>
  samples the curve at 400 divisions, end points included. The arc from the north
  pole to the south pole has 401 vertices.
\<close>

theorem pole_to_pole_line_401:
  "map_option (\<lambda>s. map (\<lambda>l. length (line_vertices l)) (filter is_Line (scene s)))
     (drawEdge (city_node 0) (city_node 1) pole_to_pole) = Some [401]"
proof -
  have "filter is_Line (scene pole_to_pole) = []"
    by (simp add: pole_to_pole_def drawNode_state with_position_def init_def)
  then show ?thesis
    unfolding drawEdge_def drawEdge_curve_coords [OF pole_to_pole_heap]
    by (simp add: createPointsGeometry_length)
qed

text \<open>
  C4, as amended. For two drawn nodes, the line that \<^verbatim>\<open>drawEdge\<close> adds to the scene
  has exactly \<open>401\<close> vertices: the curve is sampled at the fixed count of \<open>400\<close>
  divisions, and both end points are sampled.
\<close>

theorem drawEdge_sample_count:
  assumes "pos_z (heap s (position source)) \<noteq> None"
    and "pos_z (heap s (position target)) \<noteq> None"
  shows "\<exists>vs. drawEdge source target s = Some (s\<lparr>scene := scene s @ [Line vs]\<rparr>) \<and> length vs = 401"
  using assms
  by (auto simp: drawEdge_def drawEdge_curve_def vector3_of_def Let_def createPointsGeometry_length)

theorem drawEdge_sample_count_witness:
  "\<exists>vs. drawEdge (city_node 0) (city_node 1) pole_to_pole =
       Some (pole_to_pole\<lparr>scene := scene pole_to_pole @ [Line vs]\<rparr>) \<and> length vs = 401"
proof -
  have source: "pos_z (heap pole_to_pole (position (city_node 0))) \<noteq> None"
    and target: "pos_z (heap pole_to_pole (position (city_node 1))) \<noteq> None"
    unfolding pole_to_pole_heap by simp_all
  show ?thesis
    by (rule drawEdge_sample_count [OF source target])
qed

text \<open>
  C9. For two drawn nodes, the first vertex of the line that \<^verbatim>\<open>drawEdge\<close> adds is the
  source position and the last vertex is the target position.
\<close>

theorem drawEdge_endpoints:
  assumes "heap s (position source) = \<lparr>pos_x = sx, pos_y = sy, pos_z = Some sz\<rparr>"
    and "heap s (position target) = \<lparr>pos_x = tx, pos_y = ty, pos_z = Some tz\<rparr>"
  shows "\<exists>vs. drawEdge source target s = Some (s\<lparr>scene := scene s @ [Line vs]\<rparr>) \<and>
     vs \<noteq> [] \<and> hd vs = Vector3 sx sy sz \<and> last vs = Vector3 tx ty tz"
proof -
  let ?c = "QuadraticBezierCurve3
       (Vector3 sx sy sz)
       (Vector3 ((sx + tx) / 2) ((sy + ty) / 2) ((sz + tz) / 2 + (\<bar>sx - tx\<bar> + \<bar>sy - ty\<bar> / 1.3)))
       (Vector3 tx ty tz)"
  have "length (createPointsGeometry ?c 400) = Suc 400" by (rule createPointsGeometry_length) simp
  then have "createPointsGeometry ?c 400 \<noteq> []" by auto
  then show ?thesis
    by (intro exI [of _ "createPointsGeometry ?c 400"])
      (simp add: drawEdge_def drawEdge_curve_coords [OF assms] createPointsGeometry_ends)
qed

theorem drawEdge_endpoints_witness:
  "\<exists>vs. drawEdge (city_node 0) (city_node 1) pole_to_pole =
       Some (pole_to_pole\<lparr>scene := scene pole_to_pole @ [Line vs]\<rparr>) \<and>
     vs \<noteq> [] \<and> hd vs = Vector3 0 5000 0 \<and> last vs = Vector3 0 (- 5000) 0"
  using drawEdge_endpoints [OF pole_to_pole_heap]
  by simp

text \<open>
  C10. For two drawn nodes \<open>a\<close> and \<open>b\<close>, the curve from \<open>a\<close> to \<open>b\<close> and the curve
  from \<open>b\<close> to \<open>a\<close> have the same bulged control point and exchanged end points, so
  the second curve runs through the points of the first in the opposite direction, and
  its sampled vertices are those of the first in reverse order.
\<close>

theorem drawEdge_symmetric:
  assumes "pos_z (heap s (position a)) \<noteq> None"
    and "pos_z (heap s (position b)) \<noteq> None"
  shows "\<exists>c c'. drawEdge_curve a b s = Some c \<and> drawEdge_curve b a s = Some c' \<and>
     v1 c' = v1 c \<and> v0 c' = v2 c \<and> v2 c' = v0 c \<and>
     (\<forall>t. getPoint c' t = getPoint c (1 - t)) \<and>
     createPointsGeometry c' 400 = rev (createPointsGeometry c 400)"
proof -
  from assms obtain c c' where c: "drawEdge_curve a b s = Some c" and c': "drawEdge_curve b a s = Some c'"
    by (auto simp: drawEdge_curve_def vector3_of_def Let_def)
  from c c' have sym: "v0 c' = v2 c" "v1 c' = v1 c" "v2 c' = v0 c"
    by (auto simp: drawEdge_curve_def vector3_of_def Let_def add.commute abs_minus_commute
        split: option.splits)
  from sym have "\<forall>t. getPoint c' t = getPoint c (1 - t)"
    by (simp add: getPoint_reversed)
  moreover from sym have "createPointsGeometry c' 400 = rev (createPointsGeometry c 400)"
    by (simp add: createPointsGeometry_reversed)
  ultimately show ?thesis using c c' sym by simp
qed

theorem drawEdge_symmetric_witness:
  "\<exists>c c'. drawEdge_curve (city_node 0) (city_node 1) pole_to_pole = Some c \<and>
     drawEdge_curve (city_node 1) (city_node 0) pole_to_pole = Some c' \<and>
     v1 c' = v1 c \<and> v0 c' = v2 c \<and> v2 c' = v0 c \<and>
     createPointsGeometry c' 400 = rev (createPointsGeometry c 400)"
proof -
  have a: "pos_z (heap pole_to_pole (position (city_node 0))) \<noteq> None"
    and b: "pos_z (heap pole_to_pole (position (city_node 1))) \<noteq> None"
    unfolding pole_to_pole_heap by simp_all
  show ?thesis
    using drawEdge_symmetric [OF a b] by blast
qed

subsection \<open>The graph of the seven cities\<close>

lemma city_arc_ends:
  "hd (line_vertices (city_arc e)) = city_point (node_id (fst e))"
  "last (line_vertices (city_arc e)) = city_point (node_id (snd e))"
  by (simp_all add: city_arc_def createPointsGeometry_ends arc_def)

lemma lines_of_scene:
  "filter is_Line (Globe # map (\<lambda>i. Mesh i i) is @ map city_arc es) = map city_arc es"
  by (simp add: filter_map comp_def city_arc_def)

text \<open>
  C6. Whatever the options, building the graph from the seven reference cities (all
  nodes first, then every earlier node with every later one) ends with exactly
  \<open>21\<close> edges, one for each of the \<open>21\<close> unordered pairs of distinct cities, and
  with one line in the scene for each edge, in the same order: the arc between the
  projected positions of the edge's two cities, which are its first and its last vertex.
\<close>

theorem createGraph_all_pairs:
  "\<exists>s. SphereGraph opts = Some s \<and>
     edges (graph s) = pairs (map city_node [0..<7]) \<and>
     map (\<lambda>e. (node_id (fst e), node_id (snd e))) (edges (graph s)) =
       [(0, 1), (0, 2), (0, 3), (0, 4), (0, 5), (0, 6),
        (1, 2), (1, 3), (1, 4), (1, 5), (1, 6),
        (2, 3), (2, 4), (2, 5), (2, 6),
        (3, 4), (3, 5), (3, 6),
        (4, 5), (4, 6),
        (5, 6)] \<and>
     length (edges (graph s)) = 21 \<and>
     distinct (map (\<lambda>e. {node_id (fst e), node_id (snd e)}) (edges (graph s))) \<and>
     scene s = Globe # map (\<lambda>i. Mesh i i) [0..<7] @ map city_arc (edges (graph s)) \<and>
     map (\<lambda>l. (hd (line_vertices l), last (line_vertices l))) (filter is_Line (scene s)) =
       map (\<lambda>e. (city_point (node_id (fst e)), city_point (node_id (snd e)))) (edges (graph s))"
proof -
  let ?es = "pairs (map city_node [0..<length cities])"
  let ?ids = "map (\<lambda>e. (node_id (fst e), node_id (snd e))) ?es"
  have len: "length ?es = length ?ids" by simp
  have sets: "map (\<lambda>e. {node_id (fst e), node_id (snd e)}) ?es = map (\<lambda>p. {fst p, snd p}) ?ids"
    by (simp add: comp_def)
  have d: "distinct (map (\<lambda>p. {fst p, snd p}) ?ids)"
    unfolding city_pairs by (simp add: doubleton_eq_iff)
  have l: "length ?es = 21"
    unfolding len city_pairs by simp
  obtain s where run: "SphereGraph opts = Some s"
    and es: "edges (graph s) = ?es"
    and sc: "scene s = Globe # map (\<lambda>i. Mesh i i) [0..<length cities] @ map city_arc ?es"
    using SphereGraph_state [of opts] by simp
  show ?thesis
  proof (intro exI [of _ s] conjI)
    show "SphereGraph opts = Some s" by (rule run)
    show "edges (graph s) = pairs (map city_node [0..<7])"
      unfolding es length_cities by (rule refl)
    show "map (\<lambda>e. (node_id (fst e), node_id (snd e))) (edges (graph s)) =
       [(0, 1), (0, 2), (0, 3), (0, 4), (0, 5), (0, 6),
        (1, 2), (1, 3), (1, 4), (1, 5), (1, 6),
        (2, 3), (2, 4), (2, 5), (2, 6),
        (3, 4), (3, 5), (3, 6),
        (4, 5), (4, 6),
        (5, 6)]"
      unfolding es by (rule city_pairs)
    show "length (edges (graph s)) = 21" unfolding es by (rule l)
    show "distinct (map (\<lambda>e. {node_id (fst e), node_id (snd e)}) (edges (graph s)))"
      unfolding es sets by (rule d)
    show "scene s = Globe # map (\<lambda>i. Mesh i i) [0..<7] @ map city_arc (edges (graph s))"
      unfolding es sc length_cities by (rule refl)
    show "map (\<lambda>l. (hd (line_vertices l), last (line_vertices l))) (filter is_Line (scene s)) =
       map (\<lambda>e. (city_point (node_id (fst e)), city_point (node_id (snd e)))) (edges (graph s))"
      unfolding es sc lines_of_scene by (simp add: city_arc_ends comp_def)
  qed
qed

text \<open>
  C8. With the option \<^verbatim>\<open>limit: 3\<close> the graph accepts the first three nodes only, and
  \<^verbatim>\<open>createGraph\<close> still draws a mesh for each of the seven: the result of
  \<^verbatim>\<open>addNode\<close> is not looked at before \<^verbatim>\<open>drawNode\<close>.
\<close>

theorem limit_does_not_stop_drawNode:
  "\<exists>s. SphereGraph \<lparr>opt_limit = Some 3\<rparr> = Some s \<and>
     map node_id (nodes (graph s)) = [0, 1, 2] \<and>
     map mesh_id (filter is_Mesh (scene s)) = [0, 1, 2, 3, 4, 5, 6]"
  unfolding SphereGraph_state
  by (simp add: length_cities upt_7 addNode_def reached_limit_def city_node_def city_arc_def comp_def)

end
